theory Spec2Isabelle
  imports Complex_Main
begin

section \<open>Data model\<close>

text \<open>
  The outbox publisher \<open>PrismaDomainEventPublisher\<close> of
  \<open>src/domain/specifications/student-specifications.ts\<close>. A \<open>Date\<close> is its number of
  milliseconds since the epoch. A value thrown by the store or by a handler is either an
  \<open>Error\<close> object with its message or some other value: the code reads
  \<open>error instanceof Error ? error.message : default\<close>.
\<close>

type_synonym time = int

datatype thrown = Error string | NonError

fun message_or :: "string \<Rightarrow> thrown \<Rightarrow> string" where
  "message_or d (Error m) = m"
| "message_or d NonError = d"

record DomainEvent =
  eventId :: string
  eventType :: string
  aggregateId :: string
  aggregateType :: string
  tenantId :: string
  occurredOn :: time
  version :: int
  eventData :: string

record RetryPolicy =
  rp_maxRetries :: int
  backoffMs :: int

text \<open>\<open>PublishOptions\<close>: the fields \<open>priority\<close> and \<open>metadata\<close> are never read by the
  publisher and are left out. An optional field is an \<open>option\<close>.\<close>

record PublishOptions =
  immediate :: "bool option"
  retryPolicy :: "RetryPolicy option"

record PublishDetails =
  storedInOutbox :: bool
  det_scheduledFor :: time

record PublishResult =
  success :: bool
  res_eventId :: string
  res_publishedAt :: time
  error :: "string option"
  details :: "PublishDetails option"

record BatchPublishResult =
  totalEvents :: nat
  successCount :: nat
  failureCount :: nat
  results :: "PublishResult list"
  processingTimeMs :: int

record PublisherConfig =
  maxRetries :: int
  baseBackoffMs :: int
  maxBackoffMs :: int
  batchSize :: nat
  processingIntervalMs :: int
  enableLogging :: bool

text \<open>The constructor's defaults, before the caller's partial configuration is spread
  over them.\<close>

definition defaultConfig :: PublisherConfig where
  "defaultConfig =
     \<lparr>maxRetries = 3, baseBackoffMs = 1000, maxBackoffMs = 60000, batchSize = 50,
      processingIntervalMs = 5000, enableLogging = True\<rparr>"

text \<open>A row of the table \<open>outbox_events\<close> (\<open>model OutboxEvent\<close> of the Prisma schema). The
  primary key \<open>id\<close> (a generated cuid) is a number drawn from the store's counter;
  \<open>eventData\<close> holds the whole event, as \<open>publish\<close> stores it.\<close>

record OutboxEvent =
  row_id :: nat
  row_eventId :: string
  row_eventType :: string
  row_aggregateId :: string
  row_tenantId :: string
  row_eventData :: DomainEvent
  published :: bool
  publishedAt :: "time option"
  retryCount :: nat
  row_maxRetries :: int
  lastError :: "string option"
  scheduledFor :: time
  createdAt :: time
  updatedAt :: time

text \<open>
  The store is the database behind the Prisma client the publisher was constructed with.
  Besides the table and the id counter it holds \<open>refused\<close>: the value the client throws
  when a call is refused for a reason of the store's own. The wording of these errors is
  the client's and is not fixed here.
\<close>

datatype refusal = InvalidValue | UniqueViolation | RecordNotFound | TransactionAborted

record Store =
  table :: "OutboxEvent list"
  next_id :: nat
  refused :: "refusal \<Rightarrow> thrown"

definition freshStore :: "(refusal \<Rightarrow> thrown) \<Rightarrow> Store" where
  "freshStore client = \<lparr>table = [], next_id = 0, refused = client\<rparr>"

section \<open>The store\<close>

text \<open>
  The Prisma client is not part of the repository; its calls are functions on the table.
  Each call that can reject takes \<open>fault\<close>, the value an outside failure (connection,
  timeout) makes it reject with, if any. A rejected call leaves the table as it was.
  The client checks the data of a write before it sends it: an \<open>Int\<close> column takes a
  32-bit signed integer, a \<open>DateTime\<close> column a valid \<open>Date\<close> (at most 8.64e15
  milliseconds from the epoch; \<open>new Date(NaN)\<close> is invalid).
\<close>

definition int32 :: "int \<Rightarrow> bool" where
  "int32 n = (- 2147483648 \<le> n \<and> n \<le> 2147483647)"

definition valid_date :: "time \<Rightarrow> bool" where
  "valid_date t = (- 8640000000000000 \<le> t \<and> t \<le> 8640000000000000)"

record CreateData =
  d_eventId :: string
  d_eventType :: string
  d_aggregateId :: string
  d_tenantId :: string
  d_eventData :: DomainEvent
  d_published :: bool
  d_retryCount :: nat
  d_maxRetries :: int
  d_scheduledFor :: time

definition has_eventId :: "string \<Rightarrow> Store \<Rightarrow> bool" where
  "has_eventId e s = (e \<in> set (map row_eventId (table s)))"

definition new_row :: "nat \<Rightarrow> time \<Rightarrow> CreateData \<Rightarrow> OutboxEvent" where
  "new_row i now d =
     \<lparr>row_id = i, row_eventId = d_eventId d, row_eventType = d_eventType d,
      row_aggregateId = d_aggregateId d, row_tenantId = d_tenantId d,
      row_eventData = d_eventData d, published = d_published d, publishedAt = None,
      retryCount = d_retryCount d, row_maxRetries = d_maxRetries d, lastError = None,
      scheduledFor = d_scheduledFor d, createdAt = now, updatedAt = now\<rparr>"

text \<open>\<open>outboxEvent.create\<close>: the client refuses data that does not fit the columns;
  \<open>eventId\<close> is \<open>@unique\<close>, so the database refuses a second row with the same
  \<open>eventId\<close>.\<close>

definition accepted :: "CreateData \<Rightarrow> bool" where
  "accepted d = (int32 (d_maxRetries d) \<and> valid_date (d_scheduledFor d))"

definition create :: "thrown option \<Rightarrow> time \<Rightarrow> CreateData \<Rightarrow> Store \<Rightarrow> thrown + Store" where
  "create fault now d s =
     (if accepted d
      then (case fault of
              Some t \<Rightarrow> Inl t
            | None \<Rightarrow>
                if has_eventId (d_eventId d) s
                then Inl (refused s UniqueViolation)
                else Inr (s\<lparr>table := table s @ [new_row (next_id s) now d],
                            next_id := Suc (next_id s)\<rparr>))
      else Inl (refused s InvalidValue))"

text \<open>
  A \<open>create\<close> inside a transaction, with whether the transaction is already aborted and
  whether it is afterwards. The database is PostgreSQL: a statement it refuses (here the
  unique constraint) aborts the transaction, every later statement is refused, and the
  commit stores nothing.
\<close>

definition create_in_tx ::
  "bool \<Rightarrow> thrown option \<Rightarrow> time \<Rightarrow> CreateData \<Rightarrow> Store \<Rightarrow> (thrown + Store) \<times> bool" where
  "create_in_tx aborted fault now d s =
     (if aborted \<and> accepted d \<and> fault = None
      then (Inl (refused s TransactionAborted), True)
      else (create fault now d s,
            aborted \<or> (accepted d \<and> fault = None \<and> has_eventId (d_eventId d) s)))"

section \<open>Publisher core\<close>

text \<open>\<open>a || b\<close> on an optional number: \<open>undefined\<close> and \<open>0\<close> are falsy.\<close>

definition js_or :: "int option \<Rightarrow> int \<Rightarrow> int" where
  "js_or a b = (case a of None \<Rightarrow> b | Some n \<Rightarrow> if n = 0 then b else n)"

text \<open>\<open>options?.retryPolicy?.maxRetries\<close>, \<open>options?.retryPolicy?.backoffMs\<close> and
  \<open>options?.immediate === false\<close>.\<close>

definition opt_maxRetries :: "PublishOptions option \<Rightarrow> int option" where
  "opt_maxRetries options =
     (case options of
        None \<Rightarrow> None
      | Some p \<Rightarrow> (case retryPolicy p of None \<Rightarrow> None | Some rp \<Rightarrow> Some (rp_maxRetries rp)))"

definition opt_backoffMs :: "PublishOptions option \<Rightarrow> int option" where
  "opt_backoffMs options =
     (case options of
        None \<Rightarrow> None
      | Some p \<Rightarrow> (case retryPolicy p of None \<Rightarrow> None | Some rp \<Rightarrow> Some (backoffMs rp)))"

definition immediate_is_false :: "PublishOptions option \<Rightarrow> bool" where
  "immediate_is_false options =
     (case options of None \<Rightarrow> False | Some p \<Rightarrow> immediate p = Some False)"

definition outbox_data :: "PublisherConfig \<Rightarrow> PublishOptions option \<Rightarrow> DomainEvent \<Rightarrow> time \<Rightarrow> CreateData" where
  "outbox_data cfg options event sched =
     \<lparr>d_eventId = eventId event, d_eventType = eventType event,
      d_aggregateId = aggregateId event, d_tenantId = tenantId event,
      d_eventData = event, d_published = False, d_retryCount = 0,
      d_maxRetries = js_or (opt_maxRetries options) (maxRetries cfg),
      d_scheduledFor = sched\<rparr>"

definition schedule_of :: "PublishOptions option \<Rightarrow> time \<Rightarrow> time" where
  "schedule_of options now =
     (if immediate_is_false options then now + js_or (opt_backoffMs options) 0 else now)"

text \<open>
  \<open>publish(event, options)\<close>. The call takes one reading \<open>now\<close> of the clock. It returns
  the store, the result the promise resolves with, and whether it started
  \<open>processOutboxEventsAsync\<close> (fire and forget). The whole body is inside \<open>try\<close>, and the
  \<open>catch\<close> returns a result: the promise never rejects, so the model has no error branch.
\<close>

definition publish ::
  "PublisherConfig \<Rightarrow> thrown option \<Rightarrow> time \<Rightarrow> DomainEvent \<Rightarrow> PublishOptions option \<Rightarrow> Store
     \<Rightarrow> Store \<times> PublishResult \<times> bool" where
  "publish cfg fault now event options s =
     (case create fault now (outbox_data cfg options event (schedule_of options now)) s of
        Inr s' \<Rightarrow>
          (s',
           \<lparr>success = True, res_eventId = eventId event, res_publishedAt = now, error = None,
            details = Some \<lparr>storedInOutbox = True,
                            det_scheduledFor = schedule_of options now\<rparr>\<rparr>,
           \<not> immediate_is_false options)
      | Inl err \<Rightarrow>
          (s,
           \<lparr>success = False, res_eventId = eventId event, res_publishedAt = now,
            error = Some (message_or ''Unknown error occurred'' err), details = None\<rparr>,
           False))"

text \<open>
  \<open>publishBatch(events, options)\<close>. \<open>prisma.$transaction(callback)\<close> runs the callback and
  commits; it rejects when the transaction cannot be opened (the callback never runs) or
  when the commit fails (the callback's writes are rolled back). The callback wraps every
  \<open>create\<close> in its own \<open>try/catch\<close>, so it never rejects itself. \<open>cf\<close> gives
  the outside failure of the \<open>create\<close> of an event, by its \<open>eventId\<close>. The commit of an
  aborted transaction stores nothing, whether it is reported as a failure (\<open>TxCommit\<close>) or
  not.
\<close>

datatype tx_fault = TxBegin thrown | TxCommit thrown

definition stored_result :: "DomainEvent \<Rightarrow> time \<Rightarrow> PublishResult" where
  "stored_result event now =
     \<lparr>success = True, res_eventId = eventId event, res_publishedAt = now, error = None,
      details = None\<rparr>"

definition failed_result :: "string \<Rightarrow> DomainEvent \<Rightarrow> time \<Rightarrow> PublishResult" where
  "failed_result msg event now =
     \<lparr>success = False, res_eventId = eventId event, res_publishedAt = now, error = Some msg,
      details = None\<rparr>"

text \<open>The \<open>for\<close> loop of the transaction's callback, over the store as the transaction
  sees it, \<open>results\<close>, \<open>successCount\<close>, \<open>failureCount\<close>, and whether the transaction is
  aborted.\<close>

fun batch_loop ::
  "PublisherConfig \<Rightarrow> (string \<Rightarrow> thrown option) \<Rightarrow> time \<Rightarrow> PublishOptions option
     \<Rightarrow> DomainEvent list \<Rightarrow> Store \<times> PublishResult list \<times> nat \<times> nat \<times> bool
     \<Rightarrow> Store \<times> PublishResult list \<times> nat \<times> nat \<times> bool" where
  "batch_loop cfg cf now options [] acc = acc"
| "batch_loop cfg cf now options (event # events) (s, rs, sc, fc, aborted) =
     (case create_in_tx aborted (cf (eventId event)) now
             (outbox_data cfg options event (schedule_of options now)) s of
        (Inr s', aborted') \<Rightarrow>
          batch_loop cfg cf now options events
            (s', rs @ [stored_result event now], Suc sc, fc, aborted')
      | (Inl err, aborted') \<Rightarrow>
          batch_loop cfg cf now options events
            (s, rs @ [failed_result (message_or ''Unknown error occurred'' err) event now],
             sc, Suc fc, aborted'))"

text \<open>The outer \<open>catch\<close>: the counters are reset, and one failure per event is pushed onto
  \<open>results\<close> as the loop left it.\<close>

definition transaction_failed ::
  "thrown \<Rightarrow> DomainEvent list \<Rightarrow> time \<Rightarrow> int \<Rightarrow> PublishResult list \<Rightarrow> BatchPublishResult" where
  "transaction_failed err events now elapsed rs =
     \<lparr>totalEvents = length events, successCount = 0, failureCount = length events,
      results = rs @ map (\<lambda>event. failed_result (message_or ''Transaction failed'' err) event now)
                      events,
      processingTimeMs = elapsed\<rparr>"

definition publishBatch ::
  "PublisherConfig \<Rightarrow> tx_fault option \<Rightarrow> (string \<Rightarrow> thrown option) \<Rightarrow> time \<Rightarrow> int
     \<Rightarrow> DomainEvent list \<Rightarrow> PublishOptions option \<Rightarrow> Store
     \<Rightarrow> Store \<times> BatchPublishResult \<times> bool" where
  "publishBatch cfg txf cf now elapsed events options s =
     (case txf of
        Some (TxBegin err) \<Rightarrow> (s, transaction_failed err events now elapsed [], False)
      | Some (TxCommit err) \<Rightarrow>
          (case batch_loop cfg cf now options events (s, [], 0, 0, False) of
             (s', rs, sc, fc, aborted) \<Rightarrow>
               (s, transaction_failed err events now elapsed rs, False))
      | None \<Rightarrow>
          (case batch_loop cfg cf now options events (s, [], 0, 0, False) of
             (s', rs, sc, fc, aborted) \<Rightarrow>
               (if aborted then s else s',
                \<lparr>totalEvents = length events, successCount = sc, failureCount = fc,
                 results = rs, processingTimeMs = elapsed\<rparr>,
                \<not> immediate_is_false options)))"

text \<open>\<open>scheduleEvent(event, scheduleTime, options)\<close>: the same row with
  \<open>scheduledFor = scheduleTime\<close>; no processing is started.\<close>

definition scheduleEvent ::
  "PublisherConfig \<Rightarrow> thrown option \<Rightarrow> time \<Rightarrow> DomainEvent \<Rightarrow> time \<Rightarrow> PublishOptions option
     \<Rightarrow> Store \<Rightarrow> Store \<times> PublishResult \<times> time" where
  "scheduleEvent cfg fault now event scheduleTime options s =
     (case create fault now (outbox_data cfg options event scheduleTime) s of
        Inr s' \<Rightarrow> (s', stored_result event now, scheduleTime)
      | Inl err \<Rightarrow>
          (s, failed_result (message_or ''Unknown error occurred'' err) event now,
           scheduleTime))"

text \<open>\<open>outboxEvent.deleteMany\<close> and \<open>outboxEvent.updateMany\<close> return the number of rows
  they matched; \<open>updatedAt\<close> is \<open>@updatedAt\<close>, set by every update.\<close>

definition deleteMany ::
  "thrown option \<Rightarrow> (OutboxEvent \<Rightarrow> bool) \<Rightarrow> Store \<Rightarrow> thrown + Store \<times> nat" where
  "deleteMany fault P s =
     (case fault of
        Some t \<Rightarrow> Inl t
      | None \<Rightarrow> Inr (s\<lparr>table := filter (\<lambda>r. \<not> P r) (table s)\<rparr>, length (filter P (table s))))"

definition updateMany ::
  "thrown option \<Rightarrow> time \<Rightarrow> (OutboxEvent \<Rightarrow> bool) \<Rightarrow> (OutboxEvent \<Rightarrow> OutboxEvent) \<Rightarrow> Store
     \<Rightarrow> thrown + Store \<times> nat" where
  "updateMany fault now P f s =
     (case fault of
        Some t \<Rightarrow> Inl t
      | None \<Rightarrow>
          Inr (s\<lparr>table := map (\<lambda>r. if P r then (f r)\<lparr>updatedAt := now\<rparr> else r) (table s)\<rparr>,
               length (filter P (table s))))"

text \<open>\<open>outboxEvent.update({where: {id}, data})\<close>: \<open>fits\<close> says whether the data fits the
  columns; the call rejects when it does not, and when no row has the id.\<close>

definition update ::
  "thrown option \<Rightarrow> bool \<Rightarrow> time \<Rightarrow> nat \<Rightarrow> (OutboxEvent \<Rightarrow> OutboxEvent) \<Rightarrow> Store
     \<Rightarrow> thrown + Store" where
  "update fault fits now i f s =
     (if fits
      then (case fault of
              Some t \<Rightarrow> Inl t
            | None \<Rightarrow>
                if i \<in> set (map row_id (table s))
                then Inr (s\<lparr>table := map (\<lambda>r. if row_id r = i then (f r)\<lparr>updatedAt := now\<rparr>
                                               else r) (table s)\<rparr>)
                else Inl (refused s RecordNotFound))
      else Inl (refused s InvalidValue))"

record CancelResult =
  c_success :: bool
  c_error :: "string option"

definition cancelScheduledEvent :: "thrown option \<Rightarrow> string \<Rightarrow> Store \<Rightarrow> Store \<times> CancelResult" where
  "cancelScheduledEvent fault eid s =
     (case deleteMany fault (\<lambda>r. row_eventId r = eid \<and> published r = False) s of
        Inr (s', count) \<Rightarrow>
          (s',
           \<lparr>c_success = (0 < count),
            c_error = (if 0 < count then None
                       else Some ''Event not found or already published'')\<rparr>)
      | Inl err \<Rightarrow>
          (s, \<lparr>c_success = False, c_error = Some (message_or ''Unknown error occurred'' err)\<rparr>))"

section \<open>Health and recovery\<close>

text \<open>
  \<open>healthCheck()\<close>. \<open>details\<close> is either the statistics or the error. \<open>fault\<close> is the
  value the first rejecting store query of the \<open>try\<close> block rejects with, if any.
  \<open>errorRate\<close> is a JavaScript number; it is a rational here (the sentinel \<open>-1\<close> and the
  comparison with 10 are exact either way).
\<close>

datatype HealthDetails = Statistics bool nat nat | Failure string

record HealthStatus =
  healthy :: bool
  lastPublishTime :: "time option"
  pendingEvents :: int
  errorRate :: rat
  h_details :: HealthDetails

text \<open>\<open>findFirst({where: {published: true}, orderBy: {publishedAt: 'desc'}})?.publishedAt\<close>:
  the latest \<open>publishedAt\<close> of the published rows; a published row without
  \<open>publishedAt\<close> sorts first in descending order (the database's NULLS FIRST).\<close>

fun latest :: "time option list \<Rightarrow> time option" where
  "latest [] = None"
| "latest (None # ts) = None"
| "latest (Some t # ts) =
     (if ts = [] then Some t
      else (case latest ts of None \<Rightarrow> None | Some u \<Rightarrow> Some (max t u)))"

definition lastPublished :: "Store \<Rightarrow> time option" where
  "lastPublished s = latest (map publishedAt (filter published (table s)))"

definition healthCheck ::
  "PublisherConfig \<Rightarrow> thrown option \<Rightarrow> time \<Rightarrow> bool \<Rightarrow> Store \<Rightarrow> HealthStatus" where
  "healthCheck cfg fault now processing s =
     (case fault of
        Some err \<Rightarrow>
          \<lparr>healthy = False, lastPublishTime = None, pendingEvents = - 1, errorRate = - 1,
           h_details = Failure (message_or ''Unknown error'' err)\<rparr>
      | None \<Rightarrow>
          (let pending = length (filter (\<lambda>r. published r = False \<and> scheduledFor r \<le> now)
                                    (table s));
               recentCutoff = now - 3600000;
               totalRecent = length (filter (\<lambda>r. recentCutoff \<le> createdAt r) (table s));
               failedRecent =
                 length (filter (\<lambda>r. recentCutoff \<le> createdAt r \<and>
                                       maxRetries cfg \<le> int (retryCount r)) (table s));
               rate = (if 0 < totalRecent
                       then (of_nat failedRecent / of_nat totalRecent) * 100 else 0)
           in \<lparr>healthy = (rate < 10 \<and> pending < 1000), lastPublishTime = lastPublished s,
               pendingEvents = int pending, errorRate = rate,
               h_details = Statistics processing totalRecent failedRecent\<rparr>))"

text \<open>\<open>getFailedEvents(limit, offset)\<close>: the rows the publisher counts as failed, latest
  update first.\<close>

definition is_failed :: "PublisherConfig \<Rightarrow> OutboxEvent \<Rightarrow> bool" where
  "is_failed cfg r = (maxRetries cfg \<le> int (retryCount r) \<and> published r = False)"

record FailedEvent =
  f_event :: DomainEvent
  failureReason :: string
  failureTime :: time
  f_retryCount :: nat

definition getFailedEvents ::
  "PublisherConfig \<Rightarrow> thrown option \<Rightarrow> nat \<Rightarrow> nat \<Rightarrow> Store \<Rightarrow> FailedEvent list \<times> nat" where
  "getFailedEvents cfg fault limit offset s =
     (case fault of
        Some err \<Rightarrow> ([], 0)
      | None \<Rightarrow>
          (map (\<lambda>r. \<lparr>f_event = row_eventData r,
                      failureReason = (case lastError r of
                                         None \<Rightarrow> ''Unknown error''
                                       | Some m \<Rightarrow> if m = [] then ''Unknown error'' else m),
                      failureTime = updatedAt r, f_retryCount = retryCount r\<rparr>)
             (take limit (drop offset (rev (sort_key updatedAt
                (filter (is_failed cfg) (table s)))))),
           length (filter (is_failed cfg) (table s))))"

text \<open>\<open>retryFailedEvents(eventIds?)\<close>. The \<open>where\<close> clause is
  \<open>{published: false, retryCount: {lt: this.config.maxRetries}}\<close>, with
  \<open>eventId: {in: eventIds}\<close> when \<open>eventIds\<close> is given (an empty array is truthy and
  matches no row). The last component says whether processing was started.\<close>

definition retry_where :: "PublisherConfig \<Rightarrow> string list option \<Rightarrow> OutboxEvent \<Rightarrow> bool" where
  "retry_where cfg eventIds r =
     (published r = False \<and> int (retryCount r) < maxRetries cfg \<and>
      (case eventIds of None \<Rightarrow> True | Some ids \<Rightarrow> row_eventId r \<in> set ids))"

definition retryFailedEvents ::
  "PublisherConfig \<Rightarrow> thrown option \<Rightarrow> time \<Rightarrow> int \<Rightarrow> string list option \<Rightarrow> Store
     \<Rightarrow> Store \<times> BatchPublishResult \<times> bool" where
  "retryFailedEvents cfg fault now elapsed eventIds s =
     (case updateMany fault now (retry_where cfg eventIds)
             (\<lambda>r. r\<lparr>retryCount := 0, scheduledFor := now, lastError := None\<rparr>) s of
        Inr (s', count) \<Rightarrow>
          (s',
           \<lparr>totalEvents = count, successCount = count, failureCount = 0, results = [],
            processingTimeMs = elapsed\<rparr>,
           True)
      | Inl err \<Rightarrow>
          (s,
           \<lparr>totalEvents = 0, successCount = 0, failureCount = 1, results = [],
            processingTimeMs = elapsed\<rparr>,
           False))"

section \<open>Delivery dispatcher and poller\<close>

text \<open>
  A delivery handler is an asynchronous function of the event: it resolves (\<open>None\<close>) or
  rejects with a value. The registry \<open>deliveryHandlers\<close> is a map from the event type.
  \<open>defaultEventHandler\<close> only writes to the console and resolves.
\<close>

type_synonym handler = "DomainEvent \<Rightarrow> thrown option"

definition registerDeliveryHandler ::
  "string \<Rightarrow> handler \<Rightarrow> (string \<rightharpoonup> handler) \<Rightarrow> (string \<rightharpoonup> handler)" where
  "registerDeliveryHandler ty h hs = hs(ty \<mapsto> h)"

definition defaultEventHandler :: "PublisherConfig \<Rightarrow> handler" where
  "defaultEventHandler cfg event = None"

text \<open>
  The delay before the next attempt:
  \<open>Math.min(baseBackoffMs * Math.pow(2, outboxEvent.retryCount), maxBackoffMs)\<close>, in
  JavaScript's doubles. The configured delays are whole milliseconds below \<open>2^53\<close> in size,
  and \<open>retryCount\<close> is the column's value, never negative. \<open>Math.pow(2, r)\<close> is exact up to
  \<open>r = 1023\<close> and \<open>Infinity\<close> from \<open>r = 1024\<close>; the product is exact while it is below
  \<open>2^1024\<close> in size and infinite beyond. So the delay is \<open>NaN\<close> for a base of 0 and
  \<open>r \<ge> 1024\<close>, \<open>-Infinity\<close> for a product at or below \<open>-2^1024\<close> (both \<open>None\<close> here), and
  otherwise the minimum of the exact product and \<open>maxBackoffMs\<close> (an infinite product
  being above \<open>maxBackoffMs\<close>).
\<close>

definition backoff_delay :: "PublisherConfig \<Rightarrow> nat \<Rightarrow> int option" where
  "backoff_delay cfg r =
     (if baseBackoffMs cfg = 0 \<and> 1024 \<le> r then None
      else if baseBackoffMs cfg * 2 ^ r \<le> - (2 ^ 1024) then None
      else Some (min (baseBackoffMs cfg * 2 ^ r) (maxBackoffMs cfg)))"

text \<open>\<open>nextRetryTime = new Date(Date.now() + delay)\<close>: \<open>None\<close> for an invalid \<open>Date\<close>.\<close>

definition nextRetryTime :: "PublisherConfig \<Rightarrow> time \<Rightarrow> nat \<Rightarrow> time option" where
  "nextRetryTime cfg now r =
     (case backoff_delay cfg r of
        None \<Rightarrow> None
      | Some d \<Rightarrow> if valid_date (now + d) then Some (now + d) else None)"

text \<open>
  \<open>processOutboxEvent(outboxEvent)\<close>: \<open>outboxEvent\<close> is the row as the query read it. The
  \<open>try\<close> block calls the handler and marks the row published; whatever it throws (the
  handler's rejection or the update's) reaches the \<open>catch\<close>, which records the retry. A
  rejection of the update inside the \<open>catch\<close> leaves the function. \<open>mf\<close> and \<open>rf\<close>
  are the outside failures of the two updates. The clock's \<open>now\<close> is a valid \<open>Date\<close>.
\<close>

definition processOutboxEvent ::
  "PublisherConfig \<Rightarrow> (string \<rightharpoonup> handler) \<Rightarrow> time \<Rightarrow> thrown option \<Rightarrow> thrown option
     \<Rightarrow> OutboxEvent \<Rightarrow> Store \<Rightarrow> thrown + Store" where
  "processOutboxEvent cfg hs now mf rf outboxEvent s =
     (let event = row_eventData outboxEvent;
          handler = (case hs (eventType event) of
                       Some h \<Rightarrow> h
                     | None \<Rightarrow> defaultEventHandler cfg);
          attempt = (case handler event of
                       Some err \<Rightarrow> Inl err
                     | None \<Rightarrow>
                         update mf True now (row_id outboxEvent)
                           (\<lambda>r. r\<lparr>published := True, publishedAt := Some now\<rparr>) s)
      in case attempt of
           Inr s' \<Rightarrow> Inr s'
         | Inl err \<Rightarrow>
             (case nextRetryTime cfg now (retryCount outboxEvent) of
                None \<Rightarrow> update rf False now (row_id outboxEvent) (\<lambda>r. r) s
              | Some t \<Rightarrow>
                  update rf (int32 (int (retryCount outboxEvent) + 1)) now (row_id outboxEvent)
                    (\<lambda>r. r\<lparr>retryCount := retryCount outboxEvent + 1,
                            scheduledFor := t,
                            lastError := Some (message_or ''Unknown error'' err)\<rparr>) s))"

text \<open>The poll query of \<open>processOutboxEvents\<close>:
  \<open>findMany({where: {published: false, scheduledFor: {lte: now},
  retryCount: {lt: this.config.maxRetries}}, orderBy: {scheduledFor: 'asc'},
  take: this.config.batchSize})\<close>. Rows with equal \<open>scheduledFor\<close> keep the table's
  order.\<close>

definition is_due :: "PublisherConfig \<Rightarrow> time \<Rightarrow> OutboxEvent \<Rightarrow> bool" where
  "is_due cfg now r =
     (published r = False \<and> scheduledFor r \<le> now \<and> int (retryCount r) < maxRetries cfg)"

definition due_set :: "PublisherConfig \<Rightarrow> time \<Rightarrow> Store \<Rightarrow> OutboxEvent list" where
  "due_set cfg now s =
     take (batchSize cfg) (sort_key scheduledFor (filter (is_due cfg now) (table s)))"

text \<open>What a tick meets outside the publisher: whether the query rejects, the clock at the
  query and at the dispatch of each row (by row id), and the outside failures of the two
  updates of each row.\<close>

record TickEnv =
  query_fault :: "thrown option"
  query_time :: time
  dispatch_time :: "nat \<Rightarrow> time"
  mark_fault :: "nat \<Rightarrow> thrown option"
  retry_fault :: "nat \<Rightarrow> thrown option"

definition dispatch ::
  "PublisherConfig \<Rightarrow> (string \<rightharpoonup> handler) \<Rightarrow> TickEnv \<Rightarrow> OutboxEvent \<Rightarrow> Store \<Rightarrow> thrown + Store" where
  "dispatch cfg hs env outboxEvent s =
     processOutboxEvent cfg hs (dispatch_time env (row_id outboxEvent))
       (mark_fault env (row_id outboxEvent)) (retry_fault env (row_id outboxEvent))
       outboxEvent s"

text \<open>The \<open>for\<close> loop of \<open>processOutboxEvents\<close>: a rejection that leaves
  \<open>processOutboxEvent\<close> ends the loop in the outer \<open>catch\<close>, which only logs.\<close>

fun dispatch_loop ::
  "PublisherConfig \<Rightarrow> (string \<rightharpoonup> handler) \<Rightarrow> TickEnv \<Rightarrow> OutboxEvent list \<Rightarrow> Store \<Rightarrow> Store" where
  "dispatch_loop cfg hs env [] s = s"
| "dispatch_loop cfg hs env (outboxEvent # rest) s =
     (case dispatch cfg hs env outboxEvent s of
        Inl err \<Rightarrow> s
      | Inr s' \<Rightarrow> dispatch_loop cfg hs env rest s')"

definition processOutboxEvents ::
  "PublisherConfig \<Rightarrow> (string \<rightharpoonup> handler) \<Rightarrow> TickEnv \<Rightarrow> Store \<Rightarrow> Store" where
  "processOutboxEvents cfg hs env s =
     (case query_fault env of
        Some err \<Rightarrow> s
      | None \<Rightarrow> dispatch_loop cfg hs env (due_set cfg (query_time env) s) s)"

section \<open>The publisher as a state machine\<close>

text \<open>
  JavaScript runs each piece of code between two \<open>await\<close>s without interruption, and
  other calls run while a promise is pending. The publisher's state is the table, the
  flag \<open>isProcessing\<close> and the invocations of \<open>processOutboxEventsAsync\<close> that have passed
  the guard and not yet reached \<open>finally\<close>, each with where it stands: waiting for the
  query, or holding the rows the query returned that it has still to dispatch.
\<close>

datatype phase = Querying | Dispatching "OutboxEvent list"

record Publisher =
  db :: Store
  isProcessing :: bool
  ticks :: "nat \<rightharpoonup> phase"

text \<open>The publisher as its constructor leaves it, over the store of the client it was
  given.\<close>

definition initial :: "Store \<Rightarrow> Publisher" where
  "initial s = \<lparr>db = s, isProcessing = False, ticks = Map.empty\<rparr>"

text \<open>\<open>processOutboxEventsAsync\<close> from its call to its first \<open>await\<close>: the guard returns
  when the flag is set; otherwise the flag is set and the query is sent. \<open>k\<close> names the
  invocation.\<close>

definition invoke :: "nat \<Rightarrow> Publisher \<Rightarrow> Publisher" where
  "invoke k p =
     (if isProcessing p then p
      else p\<lparr>isProcessing := True, ticks := (ticks p)(k \<mapsto> Querying)\<rparr>)"

text \<open>The query of invocation \<open>k\<close> resolves (or rejects: the \<open>catch\<close> of
  \<open>processOutboxEvents\<close> logs and nothing is dispatched).\<close>

definition query_resolves :: "PublisherConfig \<Rightarrow> TickEnv \<Rightarrow> nat \<Rightarrow> Publisher \<Rightarrow> Publisher" where
  "query_resolves cfg env k p =
     (case ticks p k of
        Some Querying \<Rightarrow>
          p\<lparr>ticks := (ticks p)(k \<mapsto> Dispatching
               (case query_fault env of
                  Some err \<Rightarrow> []
                | None \<Rightarrow> due_set cfg (query_time env) (db p)))\<rparr>
      | _ \<Rightarrow> p)"

text \<open>Invocation \<open>k\<close> dispatches the next row it holds; a rejection that leaves
  \<open>processOutboxEvent\<close> drops the rest.\<close>

definition dispatch_next ::
  "PublisherConfig \<Rightarrow> (string \<rightharpoonup> handler) \<Rightarrow> TickEnv \<Rightarrow> nat \<Rightarrow> Publisher \<Rightarrow> Publisher" where
  "dispatch_next cfg hs env k p =
     (case ticks p k of
        Some (Dispatching (outboxEvent # rest)) \<Rightarrow>
          (case dispatch cfg hs env outboxEvent (db p) of
             Inr s' \<Rightarrow> p\<lparr>db := s', ticks := (ticks p)(k \<mapsto> Dispatching rest)\<rparr>
           | Inl err \<Rightarrow> p\<lparr>ticks := (ticks p)(k \<mapsto> Dispatching [])\<rparr>)
      | _ \<Rightarrow> p)"

text \<open>The \<open>finally\<close> of invocation \<open>k\<close>, once it has nothing left to dispatch.\<close>

definition tick_ends :: "nat \<Rightarrow> Publisher \<Rightarrow> Publisher" where
  "tick_ends k p =
     (case ticks p k of
        Some (Dispatching []) \<Rightarrow> p\<lparr>isProcessing := False, ticks := (ticks p)(k := None)\<rparr>
      | _ \<Rightarrow> p)"

text \<open>What can happen next: a call of a public method (with the name \<open>k\<close> of the
  invocation of \<open>processOutboxEventsAsync\<close> it may start), the timer of \<open>start\<close> firing,
  or a pending promise of an invocation in flight settling.\<close>

datatype Step =
    CallPublish "thrown option" time DomainEvent "PublishOptions option" nat
  | CallPublishBatch "tx_fault option" "string \<Rightarrow> thrown option" time "DomainEvent list"
      "PublishOptions option" nat
  | CallScheduleEvent "thrown option" time DomainEvent time "PublishOptions option"
  | CallCancel "thrown option" string
  | CallRetry "thrown option" time "string list option" nat
  | TimerFires nat
  | QueryResolves TickEnv nat
  | DispatchNext TickEnv nat
  | TickEnds nat

fun step :: "PublisherConfig \<Rightarrow> (string \<rightharpoonup> handler) \<Rightarrow> Publisher \<Rightarrow> Step \<Rightarrow> Publisher" where
  "step cfg hs p (CallPublish fault now event options k) =
     (case publish cfg fault now event options (db p) of
        (s', res, started) \<Rightarrow> if started then invoke k (p\<lparr>db := s'\<rparr>) else p\<lparr>db := s'\<rparr>)"
| "step cfg hs p (CallPublishBatch txf cf now events options k) =
     (case publishBatch cfg txf cf now 0 events options (db p) of
        (s', res, started) \<Rightarrow> if started then invoke k (p\<lparr>db := s'\<rparr>) else p\<lparr>db := s'\<rparr>)"
| "step cfg hs p (CallScheduleEvent fault now event scheduleTime options) =
     p\<lparr>db := fst (scheduleEvent cfg fault now event scheduleTime options (db p))\<rparr>"
| "step cfg hs p (CallCancel fault eid) = p\<lparr>db := fst (cancelScheduledEvent fault eid (db p))\<rparr>"
| "step cfg hs p (CallRetry fault now eventIds k) =
     (case retryFailedEvents cfg fault now 0 eventIds (db p) of
        (s', res, started) \<Rightarrow> if started then invoke k (p\<lparr>db := s'\<rparr>) else p\<lparr>db := s'\<rparr>)"
| "step cfg hs p (TimerFires k) = invoke k p"
| "step cfg hs p (QueryResolves env k) = query_resolves cfg env k p"
| "step cfg hs p (DispatchNext env k) = dispatch_next cfg hs env k p"
| "step cfg hs p (TickEnds k) = tick_ends k p"

definition run :: "PublisherConfig \<Rightarrow> (string \<rightharpoonup> handler) \<Rightarrow> Step list \<Rightarrow> Publisher \<Rightarrow> Publisher" where
  "run cfg hs steps p = foldl (step cfg hs) p steps"

section \<open>Invariants of the state machine\<close>

text \<open>The steps that ask for a poll tick: the calls that end in
  \<open>processOutboxEventsAsync()\<close> and the timer.\<close>

definition is_request :: "Step \<Rightarrow> bool" where
  "is_request st =
     (case st of
        CallPublish fault now event options k \<Rightarrow> True
      | CallPublishBatch txf cf now events options k \<Rightarrow> True
      | CallRetry fault now eventIds k \<Rightarrow> True
      | TimerFires k \<Rightarrow> True
      | _ \<Rightarrow> False)"

text \<open>Single flight: at most one invocation is between the guard and \<open>finally\<close>, and the
  flag is set while one is.\<close>

definition single_flight :: "Publisher \<Rightarrow> bool" where
  "single_flight p =
     ((\<forall>j k. ticks p j \<noteq> None \<and> ticks p k \<noteq> None \<longrightarrow> j = k) \<and>
      (\<forall>j. ticks p j \<noteq> None \<longrightarrow> isProcessing p))"

text \<open>The table as the database keeps it: \<open>id\<close> is a key, every id was drawn from the
  counter, and a published row has its \<open>publishedAt\<close>.\<close>

definition store_ok :: "Store \<Rightarrow> bool" where
  "store_ok s =
     (distinct (map row_id (table s)) \<and> (\<forall>r\<in>set (table s). row_id r < next_id s) \<and>
      (\<forall>r\<in>set (table s). published r \<longrightarrow> publishedAt r \<noteq> None))"

text \<open>\<open>s'\<close> came from \<open>s\<close> without a delivery: the published rows of both are the same
  rows, and a sound table stays sound.\<close>

definition grows :: "Store \<Rightarrow> Store \<Rightarrow> bool" where
  "grows s s' =
     ((\<forall>r\<in>set (table s). published r \<longrightarrow> r \<in> set (table s')) \<and>
      (\<forall>r\<in>set (table s'). published r \<longrightarrow> r \<in> set (table s)) \<and>
      (store_ok s \<longrightarrow> store_ok s'))"



section \<open>Example inputs\<close>

text \<open>A client that words every refusal alike, and an empty table behind it.\<close>

definition client1 :: "refusal \<Rightarrow> thrown" where
  "client1 k = Error ''refused''"

definition emptyStore :: Store where
  "emptyStore = freshStore client1"

definition event1 :: DomainEvent where
  "event1 =
     \<lparr>eventId = ''e1'', eventType = ''student.enrolled'', aggregateId = ''a1'',
      aggregateType = ''Student'', tenantId = ''t1'', occurredOn = 0, version = 1,
      eventData = ''{}''\<rparr>"

definition row1 :: OutboxEvent where
  "row1 = new_row 0 5 (outbox_data defaultConfig None event1 5)"

definition options_zero :: PublishOptions where
  "options_zero = \<lparr>immediate = None, retryPolicy = Some \<lparr>rp_maxRetries = 0, backoffMs = 0\<rparr>\<rparr>"

definition options_one :: PublishOptions where
  "options_one = \<lparr>immediate = None, retryPolicy = Some \<lparr>rp_maxRetries = 1, backoffMs = 0\<rparr>\<rparr>"

text \<open>A tick at time \<open>t\<close> that meets no outside failure, and a registry whose handler for
  \<open>student.enrolled\<close> always rejects.\<close>

definition env_at :: "time \<Rightarrow> TickEnv" where
  "env_at t =
     \<lparr>query_fault = None, query_time = t, dispatch_time = (\<lambda>i. t), mark_fault = (\<lambda>i. None),
      retry_fault = (\<lambda>i. None)\<rparr>"

definition failing :: "string \<rightharpoonup> handler" where
  "failing = registerDeliveryHandler ''student.enrolled'' (\<lambda>e. Some (Error ''boom'')) Map.empty"

text \<open>The store after \<open>event1\<close> was published at time 0 and its first delivery failed, and
  after two more failed deliveries, each as soon as the row was due again.\<close>

definition failed_once :: "PublishOptions option \<Rightarrow> Store" where
  "failed_once options =
     processOutboxEvents defaultConfig failing (env_at 0)
       (fst (publish defaultConfig None 0 event1 options emptyStore))"

definition dead_store :: Store where
  "dead_store =
     processOutboxEvents defaultConfig failing (env_at 3000)
       (processOutboxEvents defaultConfig failing (env_at 1000) (failed_once None))"










section \<open>Properties\<close>

lemmas eval_defs =
  publish_def create_def new_row_def outbox_data_def schedule_of_def js_or_def
  opt_maxRetries_def immediate_is_false_def defaultConfig_def emptyStore_def has_eventId_def
  freshStore_def client1_def accepted_def int32_def valid_date_def nextRetryTime_def
  event1_def env_at_def failing_def registerDeliveryHandler_def processOutboxEvents_def
  due_set_def is_due_def dispatch_def processOutboxEvent_def update_def backoff_delay_def
  failed_once_def dead_store_def options_one_def


subsection \<open>publish\<close>

text \<open>
  \<open>publish\<close> always returns a result. When the store accepts the row (the data fits the
  columns, no outside failure, and no row has the event's \<open>eventId\<close> yet), exactly one row
  is appended, with \<open>published = false\<close>, \<open>retryCount = 0\<close>, \<open>scheduledFor = now\<close> unless
  \<open>options.immediate\<close> is \<open>false\<close>, and \<open>maxRetries\<close> taken from
  \<open>options.retryPolicy.maxRetries\<close> when that is given and is not 0, from the configuration
  otherwise; the result is a success carrying the \<open>eventId\<close> and the storage time.
  Otherwise the store is unchanged and the result is a failure carrying the message of
  what the store threw.
\<close>

lemma publish_stores_or_reports:
  assumes "publish cfg fault now event options s = (s', res, started)"
  shows "if accepted (outbox_data cfg options event (schedule_of options now)) \<and> fault = None \<and>
            \<not> has_eventId (eventId event) s
         then (\<exists>row. table s' = table s @ [row] \<and> row_eventId row = eventId event \<and>
                 row_eventData row = event \<and> published row = False \<and> publishedAt row = None \<and>
                 retryCount row = 0 \<and>
                 row_maxRetries row =
                   (case opt_maxRetries options of
                      None \<Rightarrow> maxRetries cfg
                    | Some m \<Rightarrow> if m = 0 then maxRetries cfg else m) \<and>
                 (if immediate_is_false options then started = False
                  else scheduledFor row = now \<and> started = True)) \<and>
              success res = True \<and> res_eventId res = eventId event \<and> res_publishedAt res = now \<and>
              error res = None
         else s' = s \<and> success res = False \<and> res_eventId res = eventId event \<and> started = False \<and>
              error res =
                Some (message_or ''Unknown error occurred''
                        (if accepted (outbox_data cfg options event (schedule_of options now))
                         then (case fault of Some t \<Rightarrow> t | None \<Rightarrow> refused s UniqueViolation)
                         else refused s InvalidValue))"
  using assms
  by (auto simp: publish_def create_def new_row_def outbox_data_def schedule_of_def js_or_def
      split: option.splits if_splits)

text \<open>
  C6, at a call that asks for no retries: \<open>publish(event1, {retryPolicy: {maxRetries: 0,
  backoffMs: 0}})\<close> on an empty store under the default configuration. The row is stored
  with \<open>maxRetries = 3\<close>, the configured default, not with the 0 of the options:
  \<open>options?.retryPolicy?.maxRetries || this.config.maxRetries\<close> reads 0 as absent.
\<close>

theorem publish_zero_maxRetries_stores_default:
  "opt_maxRetries (Some options_zero) = Some 0 \<and>
   map row_maxRetries
     (table (fst (publish defaultConfig None 5 event1 (Some options_zero) emptyStore))) = [3]"
  by (simp add: publish_def create_def new_row_def outbox_data_def schedule_of_def js_or_def
      opt_maxRetries_def immediate_is_false_def options_zero_def defaultConfig_def
      emptyStore_def freshStore_def has_eventId_def event1_def accepted_def int32_def
      valid_date_def)

subsection \<open>cancelScheduledEvent\<close>

text \<open>
  C8. When the store answers and a row with the \<open>eventId\<close> and \<open>published = false\<close>
  exists, \<open>cancelScheduledEvent\<close> deletes exactly the rows matching both and returns
  \<open>success = true\<close>. In every other case (unknown id, row already published, or the store
  rejecting) the store is unchanged and the result is \<open>success = false\<close> with an error
  message. In all cases the published rows are what they were.
\<close>

theorem cancel_deletes_only_unpublished:
  assumes "cancelScheduledEvent fault eid s = (s', res)"
  shows "(if fault = None \<and> (\<exists>r. r \<in> set (table s) \<and> row_eventId r = eid \<and> published r = False)
          then table s' = filter (\<lambda>r. \<not> (row_eventId r = eid \<and> published r = False)) (table s) \<and>
               length (table s') < length (table s) \<and>
               c_success res = True \<and> c_error res = None
          else s' = s \<and> c_success res = False \<and>
               c_error res = Some (case fault of
                                     None \<Rightarrow> ''Event not found or already published''
                                   | Some t \<Rightarrow> message_or ''Unknown error occurred'' t)) \<and>
         filter published (table s') = filter published (table s)"
proof -
  let ?P = "\<lambda>r. row_eventId r = eid \<and> published r = False"
  have pub: "filter published (filter (\<lambda>r. \<not> ?P r) (table s)) = filter published (table s)"
    by (induction "table s") (auto intro: filter_cong)
  show ?thesis
  proof (cases fault)
    case (Some t)
    with assms show ?thesis
      by (auto simp: cancelScheduledEvent_def deleteMany_def)
  next
    case None
    show ?thesis
    proof (cases "\<exists>r. r \<in> set (table s) \<and> ?P r")
      case True
      then have pos: "0 < length (filter ?P (table s))"
        by (auto simp: filter_empty_conv)
      have "length (filter (\<lambda>r. \<not> ?P r) (table s)) + length (filter ?P (table s)) =
            length (table s)"
        using sum_length_filter_compl [of ?P "table s"] by simp
      with pos have less: "length (filter (\<lambda>r. \<not> ?P r) (table s)) < length (table s)"
        by linarith
      from assms None pos less pub True show ?thesis
        by (auto simp: cancelScheduledEvent_def deleteMany_def)
    next
      case False
      then have none: "filter ?P (table s) = []"
        by (auto simp: filter_empty_conv)
      from False have same: "filter (\<lambda>r. \<not> ?P r) (table s) = table s"
        by (auto simp: filter_id_conv)
      from assms None none same False show ?thesis
        by (auto simp: cancelScheduledEvent_def deleteMany_def)
    qed
  qed
qed

theorem cancel_deletes_only_unpublished_witness:
  "cancelScheduledEvent None ''e1'' (emptyStore\<lparr>table := [row1], next_id := 1\<rparr>) =
     (emptyStore\<lparr>table := [], next_id := 1\<rparr>, \<lparr>c_success = True, c_error = None\<rparr>) \<and>
   cancelScheduledEvent None ''e1''
       (emptyStore\<lparr>table := [row1\<lparr>published := True, publishedAt := Some 7\<rparr>],
                    next_id := 1\<rparr>) =
     (emptyStore\<lparr>table := [row1\<lparr>published := True, publishedAt := Some 7\<rparr>],
                  next_id := 1\<rparr>,
      \<lparr>c_success = False, c_error = Some ''Event not found or already published''\<rparr>)"
proof -
  let ?s = "emptyStore\<lparr>table := [row1], next_id := 1\<rparr>"
  let ?t = "emptyStore\<lparr>table := [row1\<lparr>published := True, publishedAt := Some 7\<rparr>],
                       next_id := 1\<rparr>"
  obtain s' res where a: "cancelScheduledEvent None ''e1'' ?s = (s', res)"
    by (metis surj_pair)
  obtain t' res' where b: "cancelScheduledEvent None ''e1'' ?t = (t', res')"
    by (metis surj_pair)
  have r: "row_eventId row1 = ''e1''" "published row1 = False"
    by (simp_all add: row1_def new_row_def outbox_data_def event1_def)
  from cancel_deletes_only_unpublished [OF a] r
  have "table s' = [] \<and> c_success res = True \<and> c_error res = None"
    by simp
  moreover from cancel_deletes_only_unpublished [OF b] r
  have "t' = ?t \<and> c_success res' = False \<and>
        c_error res' = Some ''Event not found or already published''"
    by simp
  moreover from a have "next_id s' = 1 \<and> refused s' = refused emptyStore"
    by (auto simp: cancelScheduledEvent_def deleteMany_def)
  ultimately have "s' = emptyStore\<lparr>table := [], next_id := 1\<rparr> \<and>
                   res = \<lparr>c_success = True, c_error = None\<rparr> \<and> t' = ?t \<and>
                   res' = \<lparr>c_success = False,
                           c_error = Some ''Event not found or already published''\<rparr>"
    by simp
  with a b show ?thesis
    by simp
qed

subsection \<open>healthCheck\<close>

text \<open>
  C10. When a store query of \<open>healthCheck\<close> rejects, the call still returns a status:
  \<open>healthy = false\<close>, \<open>pendingEvents = -1\<close>, \<open>errorRate = -1\<close>, and the error's message
  in \<open>details\<close>. Both numbers are negative then, and only then: with the store answering,
  neither is.
\<close>

theorem healthCheck_failure_sentinel:
  "healthCheck cfg (Some err) now processing s =
     \<lparr>healthy = False, lastPublishTime = None, pendingEvents = - 1, errorRate = - 1,
      h_details = Failure (message_or ''Unknown error'' err)\<rparr> \<and>
   pendingEvents (healthCheck cfg (Some err) now processing s) < 0 \<and>
   errorRate (healthCheck cfg (Some err) now processing s) < 0 \<and>
   0 \<le> pendingEvents (healthCheck cfg None now processing s) \<and>
   0 \<le> errorRate (healthCheck cfg None now processing s)"
  by (simp add: healthCheck_def Let_def)

subsection \<open>publishBatch\<close>

text \<open>Whenever the transaction fails, \<open>publishBatch\<close> leaves the store as it was and sets
  the counters to 0 and N, and \<open>results\<close> ends with N failures that carry the same
  message; before them stand the entries the loop pushed, none when the transaction could
  not be opened and N when it failed at the commit.\<close>

lemma batch_loop_results:
  "\<exists>more. fst (snd (batch_loop cfg cf now options events (s, rs, sc, fc, ab))) = rs @ more \<and>
          length more = length events"
proof (induction events arbitrary: s rs sc fc ab)
  case Nil
  show ?case by simp
next
  case (Cons event events)
  obtain r ab' where c: "create_in_tx ab (cf (eventId event)) now
                  (outbox_data cfg options event (schedule_of options now)) s = (r, ab')"
    by (metis surj_pair)
  show ?case
  proof (cases r)
    case (Inl err)
    from Cons.IH [of s "rs @ [failed_result (message_or ''Unknown error occurred'' err) event now]"
        sc "Suc fc" ab'] Inl c
    show ?thesis by auto
  next
    case (Inr s')
    from Cons.IH [of s' "rs @ [stored_result event now]" "Suc sc" fc ab'] Inr c
    show ?thesis by auto
  qed
qed

lemma publishBatch_transaction_failed:
  "fst (publishBatch cfg (Some f) cf now el events options s) = s \<and>
   successCount (fst (snd (publishBatch cfg (Some f) cf now el events options s))) = 0 \<and>
   failureCount (fst (snd (publishBatch cfg (Some f) cf now el events options s))) = length events \<and>
   (\<exists>before.
      results (fst (snd (publishBatch cfg (Some f) cf now el events options s))) =
        before @
        map (\<lambda>event. failed_result
               (message_or ''Transaction failed'' (case f of TxBegin err \<Rightarrow> err | TxCommit err \<Rightarrow> err))
               event now) events \<and>
      length before = (case f of TxBegin err \<Rightarrow> 0 | TxCommit err \<Rightarrow> length events))"
proof (cases f)
  case (TxBegin err)
  then show ?thesis
    by (simp add: publishBatch_def transaction_failed_def)
next
  case (TxCommit err)
  obtain s' rs sc fc ab where
    l: "batch_loop cfg cf now options events (s, [], 0, 0, False) = (s', rs, sc, fc, ab)"
    by (metis prod_cases5)
  with batch_loop_results [of cfg cf now options events s "[]" 0 0 False]
  have "length rs = length events"
    by auto
  with TxCommit l show ?thesis
    by (simp add: publishBatch_def transaction_failed_def)
qed

text \<open>A batch that holds \<open>event1\<close> twice: the second \<open>create\<close> is refused and aborts the
  transaction, whose commit then stores nothing, while the first event is still reported
  as stored.\<close>

lemma publishBatch_aborted_transaction:
  "publishBatch defaultConfig None (\<lambda>e. None) 5 0 [event1, event1] None emptyStore =
   (emptyStore,
    \<lparr>totalEvents = 2, successCount = 1, failureCount = 1,
     results = [stored_result event1 5, failed_result ''refused'' event1 5],
     processingTimeMs = 0\<rparr>,
    True)"
  by (simp add: publishBatch_def stored_result_def failed_result_def
      create_in_tx_def create_def has_eventId_def emptyStore_def freshStore_def client1_def
      new_row_def outbox_data_def schedule_of_def immediate_is_false_def opt_maxRetries_def
      js_or_def defaultConfig_def accepted_def int32_def valid_date_def event1_def)

text \<open>
  C1, at a batch of one event whose transaction fails at the commit. Nothing is stored
  and the counters say one failure, but \<open>results\<close> holds two entries for the event: the
  success the loop pushed before the commit, then the failure the \<open>catch\<close> pushed. The
  \<open>catch\<close> resets \<open>successCount\<close> and \<open>failureCount\<close> and not \<open>results\<close>.
\<close>

theorem publishBatch_commit_failure_results:
  "publishBatch defaultConfig (Some (TxCommit (Error ''commit failed''))) (\<lambda>e. None) 5 0
     [event1] None emptyStore =
   (emptyStore,
    \<lparr>totalEvents = 1, successCount = 0, failureCount = 1,
     results = [stored_result event1 5, failed_result ''commit failed'' event1 5],
     processingTimeMs = 0\<rparr>,
    False) \<and>
   success (stored_result event1 5) = True"
  by (simp add: publishBatch_def transaction_failed_def stored_result_def failed_result_def
      create_in_tx_def create_def has_eventId_def emptyStore_def freshStore_def
      outbox_data_def schedule_of_def immediate_is_false_def opt_maxRetries_def js_or_def
      defaultConfig_def accepted_def int32_def valid_date_def event1_def)

subsection \<open>The poll query\<close>

text \<open>What the poll query selects: rows that are unpublished, due and under the
  configured ceiling, earliest \<open>scheduledFor\<close> first, at most \<open>batchSize\<close> of them.\<close>

lemma due_set_selects:
  "list_all (is_due cfg now) (due_set cfg now s) \<and>
   sorted (map scheduledFor (due_set cfg now s)) \<and>
   length (due_set cfg now s) \<le> batchSize cfg"
proof -
  have "set (due_set cfg now s) \<subseteq> set (sort_key scheduledFor (filter (is_due cfg now) (table s)))"
    unfolding due_set_def by (rule set_take_subset)
  then have "list_all (is_due cfg now) (due_set cfg now s)"
    by (auto simp: list_all_iff)
  moreover have "sorted (map scheduledFor (due_set cfg now s))"
    unfolding due_set_def by (simp add: take_map [symmetric] sorted_wrt_take)
  moreover have "length (due_set cfg now s) \<le> batchSize cfg"
    by (simp add: due_set_def)
  ultimately show ?thesis by simp
qed

text \<open>
  C2, at an event published with \<open>retryPolicy.maxRetries = 1\<close> under the default
  configuration (\<open>maxRetries = 3\<close>). After one failed delivery the row has
  \<open>retryCount = 1\<close>, its own ceiling, and the next poll still selects it: the query
  compares \<open>retryCount\<close> with \<open>this.config.maxRetries\<close>, never with the row's \<open>maxRetries\<close>.
\<close>

theorem poll_ignores_row_maxRetries:
  "map (\<lambda>r. (retryCount r, row_maxRetries r, published r))
     (table (failed_once (Some options_one))) = [(1, 1, False)] \<and>
   map row_eventId (due_set defaultConfig 1000 (failed_once (Some options_one))) = [''e1'']"
  by (simp add: eval_defs)

subsection \<open>retryFailedEvents\<close>

text \<open>\<open>retryFailedEvents\<close> never writes a row that \<open>getFailedEvents\<close> counts as failed.\<close>

lemma retry_leaves_failed_rows:
  assumes "is_failed cfg r" and "r \<in> set (table s)"
  shows "r \<in> set (table (fst (retryFailedEvents cfg fault now el eventIds s)))"
proof (cases fault)
  case (Some t)
  with assms(2) show ?thesis
    by (simp add: retryFailedEvents_def updateMany_def)
next
  case None
  let ?f = "\<lambda>r. if retry_where cfg eventIds r
                 then r\<lparr>retryCount := 0, scheduledFor := now, lastError := None, updatedAt := now\<rparr>
                 else r"
  from assms(1) have "?f r = r"
    by (simp add: is_failed_def retry_where_def)
  moreover from assms(2) have "?f r \<in> ?f ` set (table s)"
    by (rule imageI)
  ultimately have "r \<in> set (map ?f (table s))"
    by simp
  with None show ?thesis
    by (simp add: retryFailedEvents_def updateMany_def)
qed

text \<open>
  C3, at a store whose only row is dead-lettered (\<open>retryCount = 3 = maxRetries\<close>,
  \<open>published = false\<close>; \<open>getFailedEvents\<close> counts it). \<open>retryFailedEvents\<close>, with the row's
  \<open>eventId\<close> or with none, matches no row and changes nothing, and the row stays out of the
  due set: its \<open>where\<close> clause asks for \<open>retryCount < maxRetries\<close>.
\<close>

theorem retry_skips_dead_lettered:
  "map retryCount (table dead_store) = [3] \<and> map published (table dead_store) = [False] \<and>
   snd (getFailedEvents defaultConfig None 50 0 dead_store) = 1 \<and>
   retryFailedEvents defaultConfig None 8000 0 (Some [''e1'']) dead_store =
     (dead_store,
      \<lparr>totalEvents = 0, successCount = 0, failureCount = 0, results = [],
       processingTimeMs = 0\<rparr>, True) \<and>
   retryFailedEvents defaultConfig None 8000 0 None dead_store =
     (dead_store,
      \<lparr>totalEvents = 0, successCount = 0, failureCount = 0, results = [],
       processingTimeMs = 0\<rparr>, True) \<and>
   due_set defaultConfig 8000 dead_store = []"
  by (simp add: eval_defs getFailedEvents_def is_failed_def retryFailedEvents_def
      updateMany_def retry_where_def)

subsection \<open>The dispatcher\<close>








subsection \<open>A tick, step by step\<close>

text \<open>The steps of one invocation, run without interruption from an idle publisher, change
  the store as the loop of \<open>processOutboxEvents\<close> does.\<close>

lemma run_Cons: "run cfg hs (st # steps) p = run cfg hs steps (step cfg hs p st)"
  by (simp add: run_def)

lemma run_append: "run cfg hs (xs @ ys) p = run cfg hs ys (run cfg hs xs p)"
  by (simp add: run_def)

lemma dispatch_nothing_left:
  "ticks p k = Some (Dispatching []) \<Longrightarrow> run cfg hs (replicate n (DispatchNext env k)) p = p"
  by (induction n) (simp_all add: run_def dispatch_next_def)

lemma dispatch_steps_loop:
  "ticks p k = Some (Dispatching os) \<Longrightarrow>
   db (run cfg hs (replicate (length os) (DispatchNext env k)) p) =
     dispatch_loop cfg hs env os (db p)"
proof (induction os arbitrary: p)
  case Nil
  then show ?case by (simp add: run_def)
next
  case (Cons c rest)
  show ?case
  proof (cases "dispatch cfg hs env c (db p)")
    case (Inl err)
    let ?p' = "p\<lparr>ticks := (ticks p)(k \<mapsto> Dispatching [])\<rparr>"
    from Inl Cons.prems have s: "step cfg hs p (DispatchNext env k) = ?p'"
      by (simp add: dispatch_next_def)
    have "run cfg hs (replicate (length rest) (DispatchNext env k)) ?p' = ?p'"
      by (rule dispatch_nothing_left) simp
    with Inl s show ?thesis
      by (simp add: run_Cons)
  next
    case (Inr s')
    let ?p' = "p\<lparr>db := s', ticks := (ticks p)(k \<mapsto> Dispatching rest)\<rparr>"
    from Inr Cons.prems have s: "step cfg hs p (DispatchNext env k) = ?p'"
      by (simp add: dispatch_next_def)
    have "ticks ?p' k = Some (Dispatching rest)" by simp
    from Cons.IH [OF this] Inr s show ?thesis
      by (simp add: run_Cons)
  qed
qed

lemma tick_is_processOutboxEvents:
  assumes idle: "isProcessing p = False"
  shows "db (run cfg hs
               ([TimerFires k, QueryResolves env k] @
                replicate (length (due_set cfg (query_time env) (db p))) (DispatchNext env k)) p) =
         processOutboxEvents cfg hs env (db p)"
proof (cases "query_fault env")
  case None
  let ?q = "p\<lparr>isProcessing := True,
              ticks := (ticks p)(k \<mapsto> Dispatching (due_set cfg (query_time env) (db p)))\<rparr>"
  have q: "run cfg hs [TimerFires k, QueryResolves env k] p = ?q"
    using idle None by (simp add: run_def invoke_def query_resolves_def)
  have "ticks ?q k = Some (Dispatching (due_set cfg (query_time env) (db p)))"
    by simp
  from dispatch_steps_loop [OF this, of cfg hs env] None show ?thesis
    unfolding run_append q by (simp add: processOutboxEvents_def)
next
  case (Some err)
  let ?q = "p\<lparr>isProcessing := True, ticks := (ticks p)(k \<mapsto> Dispatching [])\<rparr>"
  have q: "run cfg hs [TimerFires k, QueryResolves env k] p = ?q"
    using idle Some by (simp add: run_def invoke_def query_resolves_def)
  have "ticks ?q k = Some (Dispatching [])"
    by simp
  from dispatch_nothing_left [OF this, of cfg hs _ env] Some show ?thesis
    unfolding run_append q by (simp add: processOutboxEvents_def)
qed

subsection \<open>Single flight\<close>

lemma single_flight_initial: "single_flight (initial s)"
  by (simp add: single_flight_def initial_def)

lemma single_flight_db [simp]: "single_flight (p\<lparr>db := s\<rparr>) = single_flight p"
  by (simp add: single_flight_def)

lemma single_flight_invoke: "single_flight p \<Longrightarrow> single_flight (invoke k p)"
  by (auto simp: single_flight_def invoke_def)

lemma single_flight_query: "single_flight p \<Longrightarrow> single_flight (query_resolves cfg env k p)"
  by (auto simp: single_flight_def query_resolves_def split: option.splits phase.splits)
     (metis option.exhaust)+

lemma single_flight_dispatch: "single_flight p \<Longrightarrow> single_flight (dispatch_next cfg hs env k p)"
  by (auto simp: single_flight_def dispatch_next_def
      split: option.splits phase.splits list.splits sum.splits)
     (metis option.exhaust)+

lemma single_flight_ends: "single_flight p \<Longrightarrow> single_flight (tick_ends k p)"
  unfolding single_flight_def tick_ends_def
  by (auto split: option.splits phase.splits list.splits if_splits)
     (metis option.exhaust)+

lemma single_flight_step: "single_flight p \<Longrightarrow> single_flight (step cfg hs p st)"
  by (cases st)
     (auto simp: single_flight_invoke single_flight_query single_flight_dispatch
        single_flight_ends split: prod.splits)

lemma single_flight_run: "single_flight p \<Longrightarrow> single_flight (run cfg hs steps p)"
  unfolding run_def
  by (induction steps arbitrary: p) (simp_all add: single_flight_step)

lemma request_skipped:
  assumes "isProcessing p" and "is_request st"
  shows "ticks (step cfg hs p st) = ticks p \<and> isProcessing (step cfg hs p st)"
  using assms
  by (cases st) (auto simp: is_request_def invoke_def split: prod.splits)

text \<open>
  C5. In every state the publisher reaches, whatever the calls, timer firings and settled
  promises that led to it: if an invocation \<open>j\<close> of \<open>processOutboxEventsAsync\<close> is in
  flight, it is the only one, the flag \<open>isProcessing\<close> is set, a new invocation returns at
  the guard without any effect, and no request for a tick (timer, \<open>publish\<close>,
  \<open>publishBatch\<close>, \<open>retryFailedEvents\<close>) puts a second invocation in flight. So no two
  invocations ever hold rows to dispatch at the same time.
\<close>

theorem poll_tick_single_flight:
  assumes reached: "p = run cfg hs steps (initial s)"
    and running: "ticks p j = Some ph"
  shows "(\<forall>k. ticks p k \<noteq> None \<longrightarrow> k = j) \<and> isProcessing p \<and> invoke k p = p \<and>
         (is_request st \<longrightarrow> ticks (step cfg hs p st) = ticks p)"
proof -
  have "single_flight p"
    using reached single_flight_run [OF single_flight_initial] by simp
  with running have one: "\<forall>k. ticks p k \<noteq> None \<longrightarrow> k = j" and flag: "isProcessing p"
    by (auto simp: single_flight_def)
  from flag have "invoke k p = p"
    by (simp add: invoke_def)
  with one flag request_skipped [of p st cfg hs] show ?thesis
    by simp
qed

theorem poll_tick_single_flight_witness:
  "ticks (run defaultConfig Map.empty [TimerFires 1, TimerFires 2] (initial emptyStore)) 1 =
     Some Querying \<and>
   ticks (run defaultConfig Map.empty [TimerFires 1, TimerFires 2] (initial emptyStore)) 2 =
     None \<and>
   isProcessing (run defaultConfig Map.empty [TimerFires 1, TimerFires 2] (initial emptyStore))"
proof -
  let ?p = "run defaultConfig Map.empty [TimerFires 1, TimerFires 2] (initial emptyStore)"
  have a: "ticks ?p 1 = Some Querying"
    by (simp add: run_def invoke_def initial_def)
  from poll_tick_single_flight [OF refl a, of 0 "TimerFires 0"] a show ?thesis
    by auto
qed

subsection \<open>Published rows are final\<close>





lemma outbox_data_unpublished [simp]: "d_published (outbox_data cfg options event sched) = False"
  by (simp add: outbox_data_def)
















lemma grows_kept: "grows s s' \<Longrightarrow> r \<in> set (table s) \<Longrightarrow> published r \<Longrightarrow> r \<in> set (table s')"
  by (simp add: grows_def)

lemma invoke_db [simp]: "db (invoke k p) = db p"
  by (simp add: invoke_def)


lemma query_db [simp]: "db (query_resolves cfg env k p) = db p"
  by (simp add: query_resolves_def split: option.splits phase.splits)


lemma tick_ends_db [simp]: "db (tick_ends k p) = db p"
  by (simp add: tick_ends_def split: option.splits phase.splits list.splits)










end
